theory Spec2Isabelle
  imports Main "HOL-Library.Word" "HOL-Library.Signed_Division"
begin

section \<open>The configuration model of config.go\<close>

subsection \<open>Machine types\<close>

text \<open>
  Go's \<open>int\<close> is taken at its 64-bit width, \<open>time.Duration\<close> is an \<open>int64\<close> counting
  nanoseconds, and the fetch sizes are \<open>int32\<close>. Every comparison of the source is a
  signed one, so the model reads each word through \<open>sint\<close>.
\<close>

type_synonym GoInt = "64 word"
type_synonym Duration = "64 word"
type_synonym GoInt32 = "32 word"

text \<open>The constants of Go's \<open>time\<close> package, in nanoseconds.\<close>

definition Millisecond :: Duration where
  "Millisecond = 1000000"

definition Second :: Duration where
  "Second = 1000 * Millisecond"

definition Minute :: Duration where
  "Minute = 60 * Second"

text \<open>
  Modelled from the spec: \<open>RequiredAcks\<close>, \<open>CompressionCodec\<close>, \<open>PartitionerConstructor\<close>,
  \<open>NewHashPartitioner\<close>, \<open>WaitForLocal\<close> and \<open>ConfigurationError\<close> are declared in files of
  the package other than config.go. The spec gives \<open>RequiredAcks\<close> as a signed small
  integer with \<open>WaitForLocal\<close> of value 1, the codec as an enumerated code, the
  partitioner as a constructor reference that may be unset (\<open>nil\<close>, here \<open>None\<close>) and
  the error as a message string.
\<close>

type_synonym RequiredAcks = "16 word"
type_synonym CompressionCodec = "8 word"

definition WaitForLocal :: RequiredAcks where
  "WaitForLocal = 1"

datatype PartitionerConstructor = NewHashPartitioner | OtherPartitioner nat

datatype ConfigurationError = ConfigurationError string

subsection \<open>The Config struct\<close>

text \<open>
  The nested anonymous structs of \<open>Config\<close> are flattened: the field
  \<open>c.Producer.Flush.MaxMessages\<close> of the source is \<open>Producer_Flush_MaxMessages c\<close>.
\<close>

record Config =
  Net_MaxOpenRequests :: GoInt
  Net_DialTimeout :: Duration
  Net_ReadTimeout :: Duration
  Net_WriteTimeout :: Duration
  Net_KeepAlive :: Duration
  Metadata_Retry_Max :: GoInt
  Metadata_Retry_Backoff :: Duration
  Metadata_RefreshFrequency :: Duration
  Producer_MaxMessageBytes :: GoInt
  Producer_RequiredAcks :: RequiredAcks
  Producer_Timeout :: Duration
  Producer_Compression :: CompressionCodec
  Producer_Partitioner :: "PartitionerConstructor option"
  Producer_Return_Successes :: bool
  Producer_Return_Errors :: bool
  Producer_Flush_Bytes :: GoInt
  Producer_Flush_Messages :: GoInt
  Producer_Flush_Frequency :: Duration
  Producer_Flush_MaxMessages :: GoInt
  Producer_Retry_Max :: GoInt
  Producer_Retry_Backoff :: Duration
  Consumer_Retry_Backoff :: Duration
  Consumer_Fetch_Min :: GoInt32
  Consumer_Fetch_Default :: GoInt32
  Consumer_Fetch_Max :: GoInt32
  Consumer_MaxWaitTime :: Duration
  Consumer_Return_Errors :: bool
  ClientID :: string
  ChannelBufferSize :: GoInt

text \<open>The zero value \<open>Config{}\<close> that \<open>NewConfig\<close> starts from.\<close>

definition Config_zero :: Config where
  "Config_zero = \<lparr>
     Net_MaxOpenRequests = 0, Net_DialTimeout = 0, Net_ReadTimeout = 0,
     Net_WriteTimeout = 0, Net_KeepAlive = 0,
     Metadata_Retry_Max = 0, Metadata_Retry_Backoff = 0, Metadata_RefreshFrequency = 0,
     Producer_MaxMessageBytes = 0, Producer_RequiredAcks = 0, Producer_Timeout = 0,
     Producer_Compression = 0, Producer_Partitioner = None,
     Producer_Return_Successes = False, Producer_Return_Errors = False,
     Producer_Flush_Bytes = 0, Producer_Flush_Messages = 0, Producer_Flush_Frequency = 0,
     Producer_Flush_MaxMessages = 0, Producer_Retry_Max = 0, Producer_Retry_Backoff = 0,
     Consumer_Retry_Backoff = 0, Consumer_Fetch_Min = 0, Consumer_Fetch_Default = 0,
     Consumer_Fetch_Max = 0, Consumer_MaxWaitTime = 0, Consumer_Return_Errors = False,
     ClientID = [], ChannelBufferSize = 0 \<rparr>"

subsection \<open>NewConfig\<close>

definition NewConfig :: Config where
  "NewConfig = Config_zero \<lparr>
     Net_MaxOpenRequests := 5,
     Net_DialTimeout := 30 * Second,
     Net_ReadTimeout := 30 * Second,
     Net_WriteTimeout := 30 * Second,
     Metadata_Retry_Max := 3,
     Metadata_Retry_Backoff := 250 * Millisecond,
     Metadata_RefreshFrequency := 10 * Minute,
     Producer_MaxMessageBytes := 1000000,
     Producer_RequiredAcks := WaitForLocal,
     Producer_Timeout := 10 * Second,
     Producer_Partitioner := Some NewHashPartitioner,
     Producer_Retry_Max := 3,
     Producer_Retry_Backoff := 100 * Millisecond,
     Producer_Return_Errors := True,
     Consumer_Fetch_Min := 1,
     Consumer_Fetch_Default := 32768,
     Consumer_Retry_Backoff := 2 * Second,
     Consumer_MaxWaitTime := 250 * Millisecond,
     Consumer_Return_Errors := False,
     ChannelBufferSize := 256 \<rparr>"

subsection \<open>The logger\<close>

text \<open>
  \<open>Logger.Println\<close> writes one line to the process-wide logger. The logger is the list
  of the lines written so far, passed through \<open>Validate\<close>.
\<close>

type_synonym Logger = "string list"

definition Println :: "Logger \<Rightarrow> string \<Rightarrow> Logger" where
  "Println lg s = lg @ [s]"

text \<open>The statement \<open>if b { Logger.Println(s) }\<close> of the source.\<close>

definition Println_when :: "bool \<Rightarrow> string \<Rightarrow> Logger \<Rightarrow> Logger" where
  "Println_when b s lg = (if b then Println lg s else lg)"

subsection \<open>Validate\<close>

text \<open>
  \<open>Validate\<close> has a pointer receiver, so the model returns the Config as the call
  leaves it, the logger, and the error (\<open>None\<close> for \<open>nil\<close>). The threshold
  \<open>forceFlushThreshold()\<close> is computed outside config.go and is a parameter here.
  Each \<open>switch\<close> of the source is a run of the \<open>if\<close> chain: a switch none of whose
  cases holds falls through to the next one.
\<close>

definition Validate ::
  "GoInt \<Rightarrow> Config \<Rightarrow> Logger \<Rightarrow> Config \<times> Logger \<times> ConfigurationError option" where
  "Validate forceFlushThreshold c lg0 =
    (let
       lg1 = Println_when (1 < sint (Producer_RequiredAcks c))
              ''Producer.RequiredAcks > 1 is deprecated and will raise an exception with kafka >= 0.8.2.0.'' lg0;
       lg2 = Println_when (sint forceFlushThreshold \<le> sint (Producer_MaxMessageBytes c))
              ''Producer.MaxMessageBytes is too close to MaxRequestSize; it will be ignored.'' lg1;
       lg3 = Println_when (sint forceFlushThreshold \<le> sint (Producer_Flush_Bytes c))
              ''Producer.Flush.Bytes is too close to MaxRequestSize; it will be ignored.'' lg2;
       lg4 = Println_when (sint (Producer_Timeout c) smod sint Millisecond \<noteq> 0)
              ''Producer.Timeout only supports millisecond resolution; nanoseconds will be truncated.'' lg3;
       lg5 = Println_when (sint (Consumer_MaxWaitTime c) < sint (100 * Millisecond))
              ''Consumer.MaxWaitTime is very low, which can cause high CPU and network usage. See documentation for details.'' lg4;
       lg6 = Println_when (sint (Consumer_MaxWaitTime c) smod sint Millisecond \<noteq> 0)
              ''Consumer.MaxWaitTime only supports millisecond precision; nanoseconds will be truncated.'' lg5;
       lg7 = Println_when (ClientID c = ''sarama'')
              ''ClientID is the default of 'sarama', you should consider setting it to something application-specific.'' lg6
     in (c, lg7,
       \<comment> \<open>validate Net values\<close>
       if sint (Net_MaxOpenRequests c) \<le> 0 then
         Some (ConfigurationError ''Net.MaxOpenRequests must be > 0'')
       else if sint (Net_DialTimeout c) \<le> 0 then
         Some (ConfigurationError ''Net.DialTimeout must be > 0'')
       else if sint (Net_ReadTimeout c) \<le> 0 then
         Some (ConfigurationError ''Net.ReadTimeout must be > 0'')
       else if sint (Net_WriteTimeout c) \<le> 0 then
         Some (ConfigurationError ''Net.WriteTimeout must be > 0'')
       else if sint (Net_KeepAlive c) < 0 then
         Some (ConfigurationError ''Net.KeepAlive must be >= 0'')
       \<comment> \<open>validate the Metadata values\<close>
       else if sint (Metadata_Retry_Max c) < 0 then
         Some (ConfigurationError ''Metadata.Retry.Max must be >= 0'')
       else if sint (Metadata_Retry_Backoff c) < 0 then
         Some (ConfigurationError ''Metadata.Retry.Backoff must be >= 0'')
       else if sint (Metadata_RefreshFrequency c) < 0 then
         Some (ConfigurationError ''Metadata.RefreshFrequency must be >= 0'')
       \<comment> \<open>validate the Producer values\<close>
       else if sint (Producer_MaxMessageBytes c) \<le> 0 then
         Some (ConfigurationError ''Producer.MaxMessageBytes must be > 0'')
       else if sint (Producer_RequiredAcks c) < - 1 then
         Some (ConfigurationError ''Producer.RequiredAcks must be >= -1'')
       else if sint (Producer_Timeout c) \<le> 0 then
         Some (ConfigurationError ''Producer.Timeout must be > 0'')
       else if Producer_Partitioner c = None then
         Some (ConfigurationError ''Producer.Partitioner must not be nil'')
       else if sint (Producer_Flush_Bytes c) < 0 then
         Some (ConfigurationError ''Producer.Flush.Bytes must be >= 0'')
       else if sint (Producer_Flush_Messages c) < 0 then
         Some (ConfigurationError ''Producer.Flush.Messages must be >= 0'')
       else if sint (Producer_Flush_Frequency c) < 0 then
         Some (ConfigurationError ''Producer.Flush.Frequency must be >= 0'')
       else if sint (Producer_Flush_MaxMessages c) < 0 then
         Some (ConfigurationError ''Producer.Flush.MaxMessages must be >= 0'')
       else if 0 < sint (Producer_Flush_MaxMessages c)
               \<and> sint (Producer_Flush_MaxMessages c) < sint (Producer_Flush_Messages c) then
         Some (ConfigurationError ''Producer.Flush.MaxMessages must be >= Producer.Flush.Messages when set'')
       else if sint (Producer_Retry_Max c) < 0 then
         Some (ConfigurationError ''Producer.Retry.Max must be >= 0'')
       else if sint (Producer_Retry_Backoff c) < 0 then
         Some (ConfigurationError ''Producer.Retry.Backoff must be >= 0'')
       \<comment> \<open>validate the Consumer values\<close>
       else if sint (Consumer_Fetch_Min c) \<le> 0 then
         Some (ConfigurationError ''Consumer.Fetch.Min must be > 0'')
       else if sint (Consumer_Fetch_Default c) \<le> 0 then
         Some (ConfigurationError ''Consumer.Fetch.Default must be > 0'')
       else if sint (Consumer_Fetch_Max c) < 0 then
         Some (ConfigurationError ''Consumer.Fetch.Max must be >= 0'')
       else if sint (Consumer_MaxWaitTime c) < sint (1 * Millisecond) then
         Some (ConfigurationError ''Consumer.MaxWaitTime must be > 1ms'')
       else if sint (Consumer_Retry_Backoff c) < 0 then
         Some (ConfigurationError ''Consumer.Retry.Backoff must be >= 0'')
       \<comment> \<open>validate misc shared values\<close>
       else if sint (ChannelBufferSize c) < 0 then
         Some (ConfigurationError ''ChannelBufferSize must be >= 0'')
       else None))"

text \<open>The three components of what \<open>Validate\<close> leaves behind.\<close>

definition Validate_cfg :: "GoInt \<Rightarrow> Config \<Rightarrow> Logger \<Rightarrow> Config" where
  "Validate_cfg t c lg = fst (Validate t c lg)"

definition Validate_log :: "GoInt \<Rightarrow> Config \<Rightarrow> Logger \<Rightarrow> Logger" where
  "Validate_log t c lg = fst (snd (Validate t c lg))"

definition Validate_err :: "GoInt \<Rightarrow> Config \<Rightarrow> Logger \<Rightarrow> ConfigurationError option" where
  "Validate_err t c lg = snd (snd (Validate t c lg))"

subsection \<open>The advisory lines\<close>

text \<open>The seven lines \<open>Validate\<close> can write, in the order of the source.\<close>

definition advice_RequiredAcks :: string where
  "advice_RequiredAcks =
     ''Producer.RequiredAcks > 1 is deprecated and will raise an exception with kafka >= 0.8.2.0.''"

definition advice_MaxMessageBytes :: string where
  "advice_MaxMessageBytes =
     ''Producer.MaxMessageBytes is too close to MaxRequestSize; it will be ignored.''"

definition advice_Flush_Bytes :: string where
  "advice_Flush_Bytes =
     ''Producer.Flush.Bytes is too close to MaxRequestSize; it will be ignored.''"

definition advice_Timeout :: string where
  "advice_Timeout =
     ''Producer.Timeout only supports millisecond resolution; nanoseconds will be truncated.''"

definition advice_MaxWaitTime_low :: string where
  "advice_MaxWaitTime_low =
     ''Consumer.MaxWaitTime is very low, which can cause high CPU and network usage. See documentation for details.''"

definition advice_MaxWaitTime_precision :: string where
  "advice_MaxWaitTime_precision =
     ''Consumer.MaxWaitTime only supports millisecond precision; nanoseconds will be truncated.''"

definition advice_ClientID :: string where
  "advice_ClientID =
     ''ClientID is the default of 'sarama', you should consider setting it to something application-specific.''"

text \<open>
  The lines one call of \<open>Validate\<close> adds to the logger: each advisory condition of
  lines 161 to 181 of the source contributes its line or nothing.
\<close>

definition advisories :: "GoInt \<Rightarrow> Config \<Rightarrow> string list" where
  "advisories forceFlushThreshold c =
     (if 1 < sint (Producer_RequiredAcks c) then [advice_RequiredAcks] else []) @
     (if sint forceFlushThreshold \<le> sint (Producer_MaxMessageBytes c)
      then [advice_MaxMessageBytes] else []) @
     (if sint forceFlushThreshold \<le> sint (Producer_Flush_Bytes c)
      then [advice_Flush_Bytes] else []) @
     (if sint (Producer_Timeout c) smod sint Millisecond \<noteq> 0 then [advice_Timeout] else []) @
     (if sint (Consumer_MaxWaitTime c) < sint (100 * Millisecond)
      then [advice_MaxWaitTime_low] else []) @
     (if sint (Consumer_MaxWaitTime c) smod sint Millisecond \<noteq> 0
      then [advice_MaxWaitTime_precision] else []) @
     (if ClientID c = ''sarama'' then [advice_ClientID] else [])"

subsection \<open>The fatal checks, switch by switch\<close>

text \<open>
  A group is violated when one of the cases of its \<open>switch\<close> holds. The error lists
  hold the messages of each \<open>switch\<close>, in the order of its cases.
\<close>

definition Net_violated :: "Config \<Rightarrow> bool" where
  "Net_violated c \<longleftrightarrow>
     sint (Net_MaxOpenRequests c) \<le> 0 \<or> sint (Net_DialTimeout c) \<le> 0 \<or>
     sint (Net_ReadTimeout c) \<le> 0 \<or> sint (Net_WriteTimeout c) \<le> 0 \<or>
     sint (Net_KeepAlive c) < 0"

definition Metadata_violated :: "Config \<Rightarrow> bool" where
  "Metadata_violated c \<longleftrightarrow>
     sint (Metadata_Retry_Max c) < 0 \<or> sint (Metadata_Retry_Backoff c) < 0 \<or>
     sint (Metadata_RefreshFrequency c) < 0"

text \<open>The cases of the Producer switch that stand before the cross-field rule.\<close>

definition Producer_head_violated :: "Config \<Rightarrow> bool" where
  "Producer_head_violated c \<longleftrightarrow>
     sint (Producer_MaxMessageBytes c) \<le> 0 \<or> sint (Producer_RequiredAcks c) < - 1 \<or>
     sint (Producer_Timeout c) \<le> 0 \<or> Producer_Partitioner c = None \<or>
     sint (Producer_Flush_Bytes c) < 0 \<or> sint (Producer_Flush_Messages c) < 0 \<or>
     sint (Producer_Flush_Frequency c) < 0 \<or> sint (Producer_Flush_MaxMessages c) < 0"

definition Producer_violated :: "Config \<Rightarrow> bool" where
  "Producer_violated c \<longleftrightarrow>
     Producer_head_violated c \<or>
     (0 < sint (Producer_Flush_MaxMessages c)
        \<and> sint (Producer_Flush_MaxMessages c) < sint (Producer_Flush_Messages c)) \<or>
     sint (Producer_Retry_Max c) < 0 \<or> sint (Producer_Retry_Backoff c) < 0"

definition Consumer_violated :: "Config \<Rightarrow> bool" where
  "Consumer_violated c \<longleftrightarrow>
     sint (Consumer_Fetch_Min c) \<le> 0 \<or> sint (Consumer_Fetch_Default c) \<le> 0 \<or>
     sint (Consumer_Fetch_Max c) < 0 \<or>
     sint (Consumer_MaxWaitTime c) < sint (1 * Millisecond) \<or>
     sint (Consumer_Retry_Backoff c) < 0"

definition Misc_violated :: "Config \<Rightarrow> bool" where
  "Misc_violated c \<longleftrightarrow> sint (ChannelBufferSize c) < 0"

definition fatal_violated :: "Config \<Rightarrow> bool" where
  "fatal_violated c \<longleftrightarrow>
     Net_violated c \<or> Metadata_violated c \<or> Producer_violated c \<or>
     Consumer_violated c \<or> Misc_violated c"

definition Net_errors :: "ConfigurationError list" where
  "Net_errors =
    [ConfigurationError ''Net.MaxOpenRequests must be > 0'',
     ConfigurationError ''Net.DialTimeout must be > 0'',
     ConfigurationError ''Net.ReadTimeout must be > 0'',
     ConfigurationError ''Net.WriteTimeout must be > 0'',
     ConfigurationError ''Net.KeepAlive must be >= 0'']"

definition Metadata_errors :: "ConfigurationError list" where
  "Metadata_errors =
    [ConfigurationError ''Metadata.Retry.Max must be >= 0'',
     ConfigurationError ''Metadata.Retry.Backoff must be >= 0'',
     ConfigurationError ''Metadata.RefreshFrequency must be >= 0'']"

definition Producer_errors :: "ConfigurationError list" where
  "Producer_errors =
    [ConfigurationError ''Producer.MaxMessageBytes must be > 0'',
     ConfigurationError ''Producer.RequiredAcks must be >= -1'',
     ConfigurationError ''Producer.Timeout must be > 0'',
     ConfigurationError ''Producer.Partitioner must not be nil'',
     ConfigurationError ''Producer.Flush.Bytes must be >= 0'',
     ConfigurationError ''Producer.Flush.Messages must be >= 0'',
     ConfigurationError ''Producer.Flush.Frequency must be >= 0'',
     ConfigurationError ''Producer.Flush.MaxMessages must be >= 0'',
     ConfigurationError ''Producer.Flush.MaxMessages must be >= Producer.Flush.Messages when set'',
     ConfigurationError ''Producer.Retry.Max must be >= 0'',
     ConfigurationError ''Producer.Retry.Backoff must be >= 0'']"

definition Consumer_errors :: "ConfigurationError list" where
  "Consumer_errors =
    [ConfigurationError ''Consumer.Fetch.Min must be > 0'',
     ConfigurationError ''Consumer.Fetch.Default must be > 0'',
     ConfigurationError ''Consumer.Fetch.Max must be >= 0'',
     ConfigurationError ''Consumer.MaxWaitTime must be > 1ms'',
     ConfigurationError ''Consumer.Retry.Backoff must be >= 0'']"

definition Misc_errors :: "ConfigurationError list" where
  "Misc_errors = [ConfigurationError ''ChannelBufferSize must be >= 0'']"

text \<open>
  The threshold the package computes by default: \<open>MaxRequestSize\<close> of 100 MiB less
  10 KiB. It is used only where a closed example needs some threshold.
\<close>

definition default_forceFlushThreshold :: GoInt where
  "default_forceFlushThreshold = 104847360"

subsection \<open>The fatal checks as one ordered list\<close>

text \<open>
  The 25 cases of the five switches of \<open>Validate\<close> (lines 184 to 251 of the source),
  one entry per case and in the order of the source: the switch the case stands in,
  its condition and the message of its \<open>ConfigurationError\<close>.
\<close>

datatype Group = Net | Metadata | Producer | Consumer | Misc

fun Group_rank :: "Group \<Rightarrow> nat" where
  "Group_rank Net = 0"
| "Group_rank Metadata = 1"
| "Group_rank Producer = 2"
| "Group_rank Consumer = 3"
| "Group_rank Misc = 4"

type_synonym fatal_check = "Group \<times> (Config \<Rightarrow> bool) \<times> string"

definition check_group :: "fatal_check \<Rightarrow> Group" where
  "check_group k = fst k"

definition check_fails :: "fatal_check \<Rightarrow> Config \<Rightarrow> bool" where
  "check_fails k c = fst (snd k) c"

definition check_error :: "fatal_check \<Rightarrow> ConfigurationError" where
  "check_error k = ConfigurationError (snd (snd k))"

definition fatal_checks :: "fatal_check list" where
  "fatal_checks =
    [(Net, \<lambda>c. sint (Net_MaxOpenRequests c) \<le> 0, ''Net.MaxOpenRequests must be > 0''),
     (Net, \<lambda>c. sint (Net_DialTimeout c) \<le> 0, ''Net.DialTimeout must be > 0''),
     (Net, \<lambda>c. sint (Net_ReadTimeout c) \<le> 0, ''Net.ReadTimeout must be > 0''),
     (Net, \<lambda>c. sint (Net_WriteTimeout c) \<le> 0, ''Net.WriteTimeout must be > 0''),
     (Net, \<lambda>c. sint (Net_KeepAlive c) < 0, ''Net.KeepAlive must be >= 0''),
     (Metadata, \<lambda>c. sint (Metadata_Retry_Max c) < 0, ''Metadata.Retry.Max must be >= 0''),
     (Metadata, \<lambda>c. sint (Metadata_Retry_Backoff c) < 0, ''Metadata.Retry.Backoff must be >= 0''),
     (Metadata, \<lambda>c. sint (Metadata_RefreshFrequency c) < 0,
        ''Metadata.RefreshFrequency must be >= 0''),
     (Producer, \<lambda>c. sint (Producer_MaxMessageBytes c) \<le> 0,
        ''Producer.MaxMessageBytes must be > 0''),
     (Producer, \<lambda>c. sint (Producer_RequiredAcks c) < - 1, ''Producer.RequiredAcks must be >= -1''),
     (Producer, \<lambda>c. sint (Producer_Timeout c) \<le> 0, ''Producer.Timeout must be > 0''),
     (Producer, \<lambda>c. Producer_Partitioner c = None, ''Producer.Partitioner must not be nil''),
     (Producer, \<lambda>c. sint (Producer_Flush_Bytes c) < 0, ''Producer.Flush.Bytes must be >= 0''),
     (Producer, \<lambda>c. sint (Producer_Flush_Messages c) < 0,
        ''Producer.Flush.Messages must be >= 0''),
     (Producer, \<lambda>c. sint (Producer_Flush_Frequency c) < 0,
        ''Producer.Flush.Frequency must be >= 0''),
     (Producer, \<lambda>c. sint (Producer_Flush_MaxMessages c) < 0,
        ''Producer.Flush.MaxMessages must be >= 0''),
     (Producer, \<lambda>c. 0 < sint (Producer_Flush_MaxMessages c)
                  \<and> sint (Producer_Flush_MaxMessages c) < sint (Producer_Flush_Messages c),
        ''Producer.Flush.MaxMessages must be >= Producer.Flush.Messages when set''),
     (Producer, \<lambda>c. sint (Producer_Retry_Max c) < 0, ''Producer.Retry.Max must be >= 0''),
     (Producer, \<lambda>c. sint (Producer_Retry_Backoff c) < 0, ''Producer.Retry.Backoff must be >= 0''),
     (Consumer, \<lambda>c. sint (Consumer_Fetch_Min c) \<le> 0, ''Consumer.Fetch.Min must be > 0''),
     (Consumer, \<lambda>c. sint (Consumer_Fetch_Default c) \<le> 0, ''Consumer.Fetch.Default must be > 0''),
     (Consumer, \<lambda>c. sint (Consumer_Fetch_Max c) < 0, ''Consumer.Fetch.Max must be >= 0''),
     (Consumer, \<lambda>c. sint (Consumer_MaxWaitTime c) < sint (1 * Millisecond),
        ''Consumer.MaxWaitTime must be > 1ms''),
     (Consumer, \<lambda>c. sint (Consumer_Retry_Backoff c) < 0, ''Consumer.Retry.Backoff must be >= 0''),
     (Misc, \<lambda>c. sint (ChannelBufferSize c) < 0, ''ChannelBufferSize must be >= 0'')]"

text \<open>The first case of the list, if any, whose condition holds.\<close>

definition first_failing :: "Config \<Rightarrow> fatal_check option" where
  "first_failing c = find (\<lambda>k. check_fails k c) fatal_checks"

subsection \<open>A configuration that triggers every advisory\<close>

text \<open>The seven advisory conditions of lines 161 to 181 of the source, all at once.\<close>

definition all_advisories_hold :: "GoInt \<Rightarrow> Config \<Rightarrow> bool" where
  "all_advisories_hold forceFlushThreshold c \<longleftrightarrow>
     1 < sint (Producer_RequiredAcks c) \<and>
     sint forceFlushThreshold \<le> sint (Producer_MaxMessageBytes c) \<and>
     sint forceFlushThreshold \<le> sint (Producer_Flush_Bytes c) \<and>
     sint (Producer_Timeout c) smod sint Millisecond \<noteq> 0 \<and>
     sint (Consumer_MaxWaitTime c) < sint (100 * Millisecond) \<and>
     sint (Consumer_MaxWaitTime c) smod sint Millisecond \<noteq> 0 \<and>
     ClientID c = ''sarama''"

text \<open>
  The default configuration changed so that each advisory condition holds at the
  default threshold while every fatal check still passes.
\<close>

definition Config_advised :: Config where
  "Config_advised = NewConfig \<lparr>
     Producer_RequiredAcks := 2,
     Producer_MaxMessageBytes := default_forceFlushThreshold,
     Producer_Flush_Bytes := default_forceFlushThreshold,
     Producer_Timeout := 10 * Second + 1,
     Consumer_MaxWaitTime := 50 * Millisecond + 1,
     ClientID := ''sarama'' \<rparr>"

section \<open>Properties of Validate\<close>

subsection \<open>What a call leaves behind\<close>

lemmas Validate_defs = Validate_def Let_def Println_when_def Println_def
lemmas advice_defs = advice_RequiredAcks_def advice_MaxMessageBytes_def advice_Flush_Bytes_def
  advice_Timeout_def advice_MaxWaitTime_low_def advice_MaxWaitTime_precision_def advice_ClientID_def
lemmas violated_defs = Net_violated_def Metadata_violated_def Producer_head_violated_def
  Producer_violated_def Consumer_violated_def Misc_violated_def

lemmas time_defs = Millisecond_def Second_def Minute_def
lemmas NewConfig_defs = NewConfig_def Config_zero_def time_defs WaitForLocal_def

lemma Validate_cfg_eq: "Validate_cfg t c lg = c"
  by (simp add: Validate_cfg_def Validate_def Let_def)

lemma Validate_log_eq: "Validate_log t c lg = lg @ advisories t c"
  by (simp add: Validate_log_def Validate_defs advisories_def advice_defs)

lemma Validate_err_indep: "Validate_err t c lg = Validate_err t' c lg'"
  by (simp add: Validate_err_def Validate_def Let_def)

lemma Net_first:
  "Net_violated c \<Longrightarrow> Validate_err t c lg \<in> Some ` set Net_errors"
  unfolding Net_violated_def
  by (elim disjE) (simp_all add: Validate_err_def Validate_def Let_def Net_errors_def)

lemma Metadata_second:
  "\<not> Net_violated c \<Longrightarrow> Metadata_violated c \<Longrightarrow>
   Validate_err t c lg \<in> Some ` set Metadata_errors"
  unfolding Net_violated_def Metadata_violated_def
  by (elim disjE) (simp_all add: Validate_err_def Validate_def Let_def Metadata_errors_def)

lemma Producer_third:
  "\<not> Net_violated c \<Longrightarrow> \<not> Metadata_violated c \<Longrightarrow> Producer_violated c \<Longrightarrow>
   Validate_err t c lg \<in> Some ` set Producer_errors"
  unfolding violated_defs
  by (elim disjE) (simp_all add: Validate_err_def Validate_def Let_def Producer_errors_def)

lemma Consumer_fourth:
  "\<not> Net_violated c \<Longrightarrow> \<not> Metadata_violated c \<Longrightarrow> \<not> Producer_violated c \<Longrightarrow>
   Consumer_violated c \<Longrightarrow> Validate_err t c lg \<in> Some ` set Consumer_errors"
  unfolding violated_defs
  by (elim disjE) (simp_all add: Validate_err_def Validate_def Let_def Consumer_errors_def)

lemma Misc_fifth:
  "\<not> Net_violated c \<Longrightarrow> \<not> Metadata_violated c \<Longrightarrow> \<not> Producer_violated c \<Longrightarrow>
   \<not> Consumer_violated c \<Longrightarrow> Misc_violated c \<Longrightarrow>
   Validate_err t c lg \<in> Some ` set Misc_errors"
  unfolding violated_defs
  by (simp add: Validate_err_def Validate_def Let_def Misc_errors_def)

lemma no_violation_None:
  "\<not> fatal_violated c \<Longrightarrow> Validate_err t c lg = None"
  unfolding fatal_violated_def violated_defs
  by (simp add: Validate_err_def Validate_def Let_def)

lemma Validate_err_None_iff: "Validate_err t c lg = None \<longleftrightarrow> \<not> fatal_violated c"
proof
  assume none: "Validate_err t c lg = None"
  show "\<not> fatal_violated c"
  proof
    assume "fatal_violated c"
    then consider "Net_violated c"
      | "\<not> Net_violated c" "Metadata_violated c"
      | "\<not> Net_violated c" "\<not> Metadata_violated c" "Producer_violated c"
      | "\<not> Net_violated c" "\<not> Metadata_violated c" "\<not> Producer_violated c"
        "Consumer_violated c"
      | "\<not> Net_violated c" "\<not> Metadata_violated c" "\<not> Producer_violated c"
        "\<not> Consumer_violated c" "Misc_violated c"
      unfolding fatal_violated_def by blast
    then have "Validate_err t c lg \<noteq> None"
    proof cases
      case 1 from Net_first [OF this] show ?thesis by auto
    next
      case 2 from Metadata_second [OF this] show ?thesis by auto
    next
      case 3 from Producer_third [OF this] show ?thesis by auto
    next
      case 4 from Consumer_fourth [OF this] show ?thesis by auto
    next
      case 5 from Misc_fifth [OF this] show ?thesis by auto
    qed
    with none show False by contradiction
  qed
next
  assume "\<not> fatal_violated c"
  then show "Validate_err t c lg = None" by (rule no_violation_None)
qed

lemma errors_distinct:
  "distinct (Net_errors @ Metadata_errors @ Producer_errors @ Consumer_errors @ Misc_errors)"
  by (simp add: Net_errors_def Metadata_errors_def Producer_errors_def Consumer_errors_def
      Misc_errors_def)

lemma advice_distinct:
  "distinct [advice_RequiredAcks, advice_MaxMessageBytes, advice_Flush_Bytes, advice_Timeout,
     advice_MaxWaitTime_low, advice_MaxWaitTime_precision, advice_ClientID]"
  by (simp add: advice_defs)

subsection \<open>The chain and the list of checks\<close>

lemma Validate_err_first_failing:
  "Validate_err t c lg = map_option check_error (first_failing c)"
  by (simp add: Validate_err_def Validate_def Let_def first_failing_def fatal_checks_def
      check_fails_def check_error_def)

lemma fatal_checks_groups:
  "map check_group fatal_checks =
     replicate 5 Net @ replicate 3 Metadata @ replicate 11 Producer @ replicate 5 Consumer @
     replicate 1 Misc"
  by (simp add: fatal_checks_def check_group_def numeral_eq_Suc)

lemma fatal_checks_sorted: "sorted (map (Group_rank \<circ> check_group) fatal_checks)"
  by (simp add: fatal_checks_def check_group_def)

lemma group_errors:
  "map check_error (filter (\<lambda>k. check_group k = Net) fatal_checks) = Net_errors"
  "map check_error (filter (\<lambda>k. check_group k = Metadata) fatal_checks) = Metadata_errors"
  "map check_error (filter (\<lambda>k. check_group k = Producer) fatal_checks) = Producer_errors"
  "map check_error (filter (\<lambda>k. check_group k = Consumer) fatal_checks) = Consumer_errors"
  "map check_error (filter (\<lambda>k. check_group k = Misc) fatal_checks) = Misc_errors"
  by (simp_all add: fatal_checks_def check_group_def check_error_def Net_errors_def
      Metadata_errors_def Producer_errors_def Consumer_errors_def Misc_errors_def)

lemma group_violated:
  "Net_violated c \<longleftrightarrow> (\<exists>k \<in> set fatal_checks. check_group k = Net \<and> check_fails k c)"
  "Metadata_violated c \<longleftrightarrow> (\<exists>k \<in> set fatal_checks. check_group k = Metadata \<and> check_fails k c)"
  "Producer_violated c \<longleftrightarrow> (\<exists>k \<in> set fatal_checks. check_group k = Producer \<and> check_fails k c)"
  "Consumer_violated c \<longleftrightarrow> (\<exists>k \<in> set fatal_checks. check_group k = Consumer \<and> check_fails k c)"
  "Misc_violated c \<longleftrightarrow> (\<exists>k \<in> set fatal_checks. check_group k = Misc \<and> check_fails k c)"
  by (simp_all add: fatal_checks_def check_group_def check_fails_def violated_defs)

lemma first_failing_stops:
  assumes "i < length fatal_checks" and "check_fails (fatal_checks ! i) c"
  shows "\<exists>k\<le>i. Validate_err t c lg = Some (check_error (fatal_checks ! k)) \<and>
           check_fails (fatal_checks ! k) c \<and>
           (\<forall>j<k. \<not> check_fails (fatal_checks ! j) c) \<and>
           Group_rank (check_group (fatal_checks ! k)) \<le> Group_rank (check_group (fatal_checks ! i))"
proof -
  from assms have "fatal_checks ! i \<in> set fatal_checks" by simp
  with assms(2) have "find (\<lambda>k. check_fails k c) fatal_checks \<noteq> None"
    unfolding find_None_iff by blast
  then obtain x where x: "find (\<lambda>k. check_fails k c) fatal_checks = Some x" by blast
  then obtain k where k: "k < length fatal_checks" "check_fails (fatal_checks ! k) c"
      "x = fatal_checks ! k" "\<forall>j<k. \<not> check_fails (fatal_checks ! j) c"
    unfolding find_Some_iff by blast
  have ki: "k \<le> i"
  proof (rule ccontr)
    assume "\<not> k \<le> i"
    then have "i < k" by simp
    with k(4) assms(2) show False by blast
  qed
  have "Group_rank (check_group (fatal_checks ! k)) \<le> Group_rank (check_group (fatal_checks ! i))"
    using sorted_nth_mono [OF fatal_checks_sorted, of k i] ki assms(1) k(1) by simp
  moreover have "Validate_err t c lg = Some (check_error (fatal_checks ! k))"
    using x k(3) by (simp add: Validate_err_first_failing first_failing_def)
  ultimately show ?thesis using ki k(2,4) by blast
qed

subsection \<open>The default constructor\<close>

text \<open>
  C1. \<open>NewConfig\<close> takes no input and is a constant of the model, so it is
  deterministic and cannot fail. It returns exactly the documented defaults, every
  field it does not assign keeping its zero value, and \<open>Validate\<close> called on it, for
  every threshold and every state of the logger, returns no error and leaves it as
  it was.
\<close>

theorem NewConfig_defaults_valid:
  "NewConfig = \<lparr>
     Net_MaxOpenRequests = 5, Net_DialTimeout = 30 * Second, Net_ReadTimeout = 30 * Second,
     Net_WriteTimeout = 30 * Second, Net_KeepAlive = 0,
     Metadata_Retry_Max = 3, Metadata_Retry_Backoff = 250 * Millisecond,
     Metadata_RefreshFrequency = 10 * Minute,
     Producer_MaxMessageBytes = 1000000, Producer_RequiredAcks = WaitForLocal,
     Producer_Timeout = 10 * Second,
     Producer_Compression = 0, Producer_Partitioner = Some NewHashPartitioner,
     Producer_Return_Successes = False, Producer_Return_Errors = True,
     Producer_Flush_Bytes = 0, Producer_Flush_Messages = 0, Producer_Flush_Frequency = 0,
     Producer_Flush_MaxMessages = 0, Producer_Retry_Max = 3,
     Producer_Retry_Backoff = 100 * Millisecond,
     Consumer_Retry_Backoff = 2 * Second, Consumer_Fetch_Min = 1,
     Consumer_Fetch_Default = 32768,
     Consumer_Fetch_Max = 0, Consumer_MaxWaitTime = 250 * Millisecond,
     Consumer_Return_Errors = False,
     ClientID = [], ChannelBufferSize = 256 \<rparr>
   \<and> sint Millisecond = 1000000 \<and> sint Second = 1000000000 \<and> sint Minute = 60000000000
   \<and> sint WaitForLocal = 1
   \<and> Validate_err t NewConfig lg = None
   \<and> Validate_cfg t NewConfig lg = NewConfig"
proof (intro conjI)
  show "Validate_err t NewConfig lg = None"
    by (rule no_violation_None)
      (simp add: fatal_violated_def violated_defs NewConfig_def Config_zero_def time_defs
        WaitForLocal_def)
qed (simp_all add: NewConfig_def Config_zero_def time_defs WaitForLocal_def Validate_cfg_eq)

subsection \<open>The order of the checks\<close>

text \<open>
  C2. \<open>Validate\<close> returns exactly the error of the first case, in the order of the
  source, whose condition holds, and no error when none holds. So whenever some check
  fails, the error returned is that of a check at or before it, which itself fails,
  with every check before it passing, and whose group is the same or an earlier one
  in the order Net, Metadata, Producer, Consumer, miscellaneous: of two violated
  groups the earlier decides the error, and no check after the first failing one has
  a say. The list holds the five groups in that order, a group is violated exactly
  when one of its checks fails, and the messages are pairwise different, so the
  returned error identifies its check and its group. The advisory lines are written
  whether or not a fatal check fails: the logger a call leaves behind holds every
  advisory line due, also when an error is returned.
\<close>

theorem Validate_group_order:
  "Validate_err t c lg = map_option check_error (first_failing c) \<and>
   (\<forall>i<length fatal_checks. check_fails (fatal_checks ! i) c \<longrightarrow>
      (\<exists>k\<le>i. Validate_err t c lg = Some (check_error (fatal_checks ! k)) \<and>
         check_fails (fatal_checks ! k) c \<and>
         (\<forall>j<k. \<not> check_fails (fatal_checks ! j) c) \<and>
         Group_rank (check_group (fatal_checks ! k))
           \<le> Group_rank (check_group (fatal_checks ! i)))) \<and>
   map check_group fatal_checks =
     replicate 5 Net @ replicate 3 Metadata @ replicate 11 Producer @ replicate 5 Consumer @
     replicate 1 Misc \<and>
   map check_error (filter (\<lambda>k. check_group k = Net) fatal_checks) = Net_errors \<and>
   map check_error (filter (\<lambda>k. check_group k = Metadata) fatal_checks) = Metadata_errors \<and>
   map check_error (filter (\<lambda>k. check_group k = Producer) fatal_checks) = Producer_errors \<and>
   map check_error (filter (\<lambda>k. check_group k = Consumer) fatal_checks) = Consumer_errors \<and>
   map check_error (filter (\<lambda>k. check_group k = Misc) fatal_checks) = Misc_errors \<and>
   (Net_violated c \<longleftrightarrow>
      (\<exists>k \<in> set fatal_checks. check_group k = Net \<and> check_fails k c)) \<and>
   (Metadata_violated c \<longleftrightarrow>
      (\<exists>k \<in> set fatal_checks. check_group k = Metadata \<and> check_fails k c)) \<and>
   (Producer_violated c \<longleftrightarrow>
      (\<exists>k \<in> set fatal_checks. check_group k = Producer \<and> check_fails k c)) \<and>
   (Consumer_violated c \<longleftrightarrow>
      (\<exists>k \<in> set fatal_checks. check_group k = Consumer \<and> check_fails k c)) \<and>
   (Misc_violated c \<longleftrightarrow>
      (\<exists>k \<in> set fatal_checks. check_group k = Misc \<and> check_fails k c)) \<and>
   (Net_violated c \<longrightarrow> Validate_err t c lg \<in> Some ` set Net_errors) \<and>
   (\<not> Net_violated c \<and> Metadata_violated c \<longrightarrow>
      Validate_err t c lg \<in> Some ` set Metadata_errors) \<and>
   (\<not> Net_violated c \<and> \<not> Metadata_violated c \<and> Producer_violated c \<longrightarrow>
      Validate_err t c lg \<in> Some ` set Producer_errors) \<and>
   (\<not> Net_violated c \<and> \<not> Metadata_violated c \<and> \<not> Producer_violated c \<and>
    Consumer_violated c \<longrightarrow>
      Validate_err t c lg \<in> Some ` set Consumer_errors) \<and>
   (\<not> Net_violated c \<and> \<not> Metadata_violated c \<and> \<not> Producer_violated c \<and>
    \<not> Consumer_violated c \<and> Misc_violated c \<longrightarrow>
      Validate_err t c lg \<in> Some ` set Misc_errors) \<and>
   distinct (Net_errors @ Metadata_errors @ Producer_errors @ Consumer_errors @ Misc_errors) \<and>
   Validate_log t c lg = lg @ advisories t c"
proof -
  have stops: "\<forall>i<length fatal_checks. check_fails (fatal_checks ! i) c \<longrightarrow>
      (\<exists>k\<le>i. Validate_err t c lg = Some (check_error (fatal_checks ! k)) \<and>
         check_fails (fatal_checks ! k) c \<and>
         (\<forall>j<k. \<not> check_fails (fatal_checks ! j) c) \<and>
         Group_rank (check_group (fatal_checks ! k))
           \<le> Group_rank (check_group (fatal_checks ! i)))"
    using first_failing_stops [of _ c t lg] by blast
  have groups: "(Net_violated c \<longrightarrow> Validate_err t c lg \<in> Some ` set Net_errors) \<and>
   (\<not> Net_violated c \<and> Metadata_violated c \<longrightarrow>
      Validate_err t c lg \<in> Some ` set Metadata_errors) \<and>
   (\<not> Net_violated c \<and> \<not> Metadata_violated c \<and> Producer_violated c \<longrightarrow>
      Validate_err t c lg \<in> Some ` set Producer_errors) \<and>
   (\<not> Net_violated c \<and> \<not> Metadata_violated c \<and> \<not> Producer_violated c \<and>
    Consumer_violated c \<longrightarrow>
      Validate_err t c lg \<in> Some ` set Consumer_errors) \<and>
   (\<not> Net_violated c \<and> \<not> Metadata_violated c \<and> \<not> Producer_violated c \<and>
    \<not> Consumer_violated c \<and> Misc_violated c \<longrightarrow>
      Validate_err t c lg \<in> Some ` set Misc_errors)"
    using Net_first [of c t lg] Metadata_second [of c t lg] Producer_third [of c t lg]
      Consumer_fourth [of c t lg] Misc_fifth [of c t lg]
    by blast
  show ?thesis
    using stops groups Validate_err_first_failing [of t c lg] fatal_checks_groups
      group_errors group_violated [of c] errors_distinct Validate_log_eq [of t c lg]
    by (intro conjI) (assumption | blast)+
qed

theorem Validate_group_order_witness:
  "check_fails (fatal_checks ! 0) (NewConfig\<lparr>Net_MaxOpenRequests := 0, Consumer_Fetch_Min := 0\<rparr>) \<and>
   check_fails (fatal_checks ! 19) (NewConfig\<lparr>Net_MaxOpenRequests := 0, Consumer_Fetch_Min := 0\<rparr>) \<and>
   check_group (fatal_checks ! 0) = Net \<and> check_group (fatal_checks ! 19) = Consumer \<and>
   Net_violated (NewConfig\<lparr>Net_MaxOpenRequests := 0, Consumer_Fetch_Min := 0\<rparr>) \<and>
   Consumer_violated (NewConfig\<lparr>Net_MaxOpenRequests := 0, Consumer_Fetch_Min := 0\<rparr>) \<and>
   Validate_err default_forceFlushThreshold
     (NewConfig\<lparr>Net_MaxOpenRequests := 0, Consumer_Fetch_Min := 0\<rparr>) []
     = Some (ConfigurationError ''Net.MaxOpenRequests must be > 0'') \<and>
   Net_violated (NewConfig\<lparr>Net_KeepAlive := - 1, Consumer_Fetch_Min := 0\<rparr>) \<and>
   Consumer_violated (NewConfig\<lparr>Net_KeepAlive := - 1, Consumer_Fetch_Min := 0\<rparr>) \<and>
   Validate_err default_forceFlushThreshold
     (NewConfig\<lparr>Net_KeepAlive := - 1, Consumer_Fetch_Min := 0\<rparr>) []
     = Some (ConfigurationError ''Net.KeepAlive must be >= 0'') \<and>
   Metadata_violated (NewConfig\<lparr>Metadata_Retry_Max := - 1, ChannelBufferSize := - 1\<rparr>) \<and>
   Misc_violated (NewConfig\<lparr>Metadata_Retry_Max := - 1, ChannelBufferSize := - 1\<rparr>) \<and>
   Validate_err default_forceFlushThreshold
     (NewConfig\<lparr>Metadata_Retry_Max := - 1, ChannelBufferSize := - 1\<rparr>) []
     = Some (ConfigurationError ''Metadata.Retry.Max must be >= 0'') \<and>
   Producer_violated (NewConfig\<lparr>Producer_Partitioner := None, Consumer_Fetch_Max := - 1\<rparr>) \<and>
   Consumer_violated (NewConfig\<lparr>Producer_Partitioner := None, Consumer_Fetch_Max := - 1\<rparr>) \<and>
   Validate_err default_forceFlushThreshold
     (NewConfig\<lparr>Producer_Partitioner := None, Consumer_Fetch_Max := - 1\<rparr>) []
     = Some (ConfigurationError ''Producer.Partitioner must not be nil'') \<and>
   Consumer_violated (NewConfig\<lparr>Consumer_MaxWaitTime := 0, ChannelBufferSize := - 1\<rparr>) \<and>
   Misc_violated (NewConfig\<lparr>Consumer_MaxWaitTime := 0, ChannelBufferSize := - 1\<rparr>) \<and>
   Validate_err default_forceFlushThreshold
     (NewConfig\<lparr>Consumer_MaxWaitTime := 0, ChannelBufferSize := - 1\<rparr>) []
     = Some (ConfigurationError ''Consumer.MaxWaitTime must be > 1ms'') \<and>
   Misc_violated (NewConfig\<lparr>ChannelBufferSize := - 1\<rparr>) \<and>
   Validate_err default_forceFlushThreshold (NewConfig\<lparr>ChannelBufferSize := - 1\<rparr>) []
     = Some (ConfigurationError ''ChannelBufferSize must be >= 0'') \<and>
   Validate_log default_forceFlushThreshold
     (NewConfig\<lparr>Consumer_MaxWaitTime := 0, ChannelBufferSize := - 1\<rparr>) []
     = [advice_MaxWaitTime_low]"
proof -
  have l: "Validate_log t c lg = lg @ advisories t c" for t c lg
    using Validate_group_order [of t c lg] by blast
  show ?thesis
    using
      Validate_group_order [THEN conjunct1, of default_forceFlushThreshold
        "NewConfig\<lparr>Net_MaxOpenRequests := 0, Consumer_Fetch_Min := 0\<rparr>" "[]"]
      Validate_group_order [THEN conjunct1, of default_forceFlushThreshold
        "NewConfig\<lparr>Net_KeepAlive := - 1, Consumer_Fetch_Min := 0\<rparr>" "[]"]
      Validate_group_order [THEN conjunct1, of default_forceFlushThreshold
        "NewConfig\<lparr>Metadata_Retry_Max := - 1, ChannelBufferSize := - 1\<rparr>" "[]"]
      Validate_group_order [THEN conjunct1, of default_forceFlushThreshold
        "NewConfig\<lparr>Producer_Partitioner := None, Consumer_Fetch_Max := - 1\<rparr>" "[]"]
      Validate_group_order [THEN conjunct1, of default_forceFlushThreshold
        "NewConfig\<lparr>Consumer_MaxWaitTime := 0, ChannelBufferSize := - 1\<rparr>" "[]"]
      Validate_group_order [THEN conjunct1, of default_forceFlushThreshold
        "NewConfig\<lparr>ChannelBufferSize := - 1\<rparr>" "[]"]
      l [of default_forceFlushThreshold
        "NewConfig\<lparr>Consumer_MaxWaitTime := 0, ChannelBufferSize := - 1\<rparr>" "[]"]
    by (simp add: violated_defs NewConfig_defs advisories_def default_forceFlushThreshold_def
        signed_modulo_int_def first_failing_def fatal_checks_def check_fails_def check_group_def
        check_error_def)
qed

text \<open>
  The Consumer switch does not follow the order of the fields in the struct: it tests
  \<open>Fetch.Min\<close> first and \<open>Retry.Backoff\<close> last. On the default configuration with
  \<open>Consumer.Retry.Backoff = -1\<close> and \<open>Consumer.Fetch.Min = 0\<close> the error names
  \<open>Consumer.Fetch.Min\<close>, not \<open>Consumer.Retry.Backoff\<close>.
\<close>

theorem Consumer_Backoff_first_counterexample:
  "\<not> Net_violated (NewConfig\<lparr>Consumer_Retry_Backoff := - 1, Consumer_Fetch_Min := 0\<rparr>) \<and>
   \<not> Metadata_violated (NewConfig\<lparr>Consumer_Retry_Backoff := - 1, Consumer_Fetch_Min := 0\<rparr>) \<and>
   \<not> Producer_violated (NewConfig\<lparr>Consumer_Retry_Backoff := - 1, Consumer_Fetch_Min := 0\<rparr>) \<and>
   sint (Consumer_Retry_Backoff
     (NewConfig\<lparr>Consumer_Retry_Backoff := - 1, Consumer_Fetch_Min := 0\<rparr>)) < 0 \<and>
   sint (Consumer_Fetch_Min
     (NewConfig\<lparr>Consumer_Retry_Backoff := - 1, Consumer_Fetch_Min := 0\<rparr>)) \<le> 0 \<and>
   Validate_err default_forceFlushThreshold
     (NewConfig\<lparr>Consumer_Retry_Backoff := - 1, Consumer_Fetch_Min := 0\<rparr>) []
     \<noteq> Some (ConfigurationError ''Consumer.Retry.Backoff must be >= 0'') \<and>
   Validate_err default_forceFlushThreshold
     (NewConfig\<lparr>Consumer_Retry_Backoff := - 1, Consumer_Fetch_Min := 0\<rparr>) []
     = Some (ConfigurationError ''Consumer.Fetch.Min must be > 0'')"
  by (simp add: violated_defs NewConfig_defs Validate_err_def Validate_def Let_def)

text \<open>
  C5 (as amended). Within the Consumer group the checks run in the order
  \<open>Fetch.Min\<close>, \<open>Fetch.Default\<close>, \<open>Fetch.Max\<close>, \<open>MaxWaitTime\<close>, \<open>Retry.Backoff\<close>: for
  every Config that passes the Net, Metadata and Producer checks, the error is that
  of the first of these five that fails; with both \<open>Consumer.Retry.Backoff < 0\<close> and
  \<open>Consumer.Fetch.Min <= 0\<close> the error names \<open>Consumer.Fetch.Min\<close>.
\<close>

theorem Consumer_check_order:
  assumes "\<not> Net_violated c" and "\<not> Metadata_violated c" and "\<not> Producer_violated c"
  shows
   "(sint (Consumer_Fetch_Min c) \<le> 0 \<longrightarrow>
       Validate_err t c lg = Some (ConfigurationError ''Consumer.Fetch.Min must be > 0'')) \<and>
    (0 < sint (Consumer_Fetch_Min c) \<and> sint (Consumer_Fetch_Default c) \<le> 0 \<longrightarrow>
       Validate_err t c lg = Some (ConfigurationError ''Consumer.Fetch.Default must be > 0'')) \<and>
    (0 < sint (Consumer_Fetch_Min c) \<and> 0 < sint (Consumer_Fetch_Default c) \<and>
     sint (Consumer_Fetch_Max c) < 0 \<longrightarrow>
       Validate_err t c lg = Some (ConfigurationError ''Consumer.Fetch.Max must be >= 0'')) \<and>
    (0 < sint (Consumer_Fetch_Min c) \<and> 0 < sint (Consumer_Fetch_Default c) \<and>
     0 \<le> sint (Consumer_Fetch_Max c) \<and>
     sint (Consumer_MaxWaitTime c) < sint (1 * Millisecond) \<longrightarrow>
       Validate_err t c lg = Some (ConfigurationError ''Consumer.MaxWaitTime must be > 1ms'')) \<and>
    (0 < sint (Consumer_Fetch_Min c) \<and> 0 < sint (Consumer_Fetch_Default c) \<and>
     0 \<le> sint (Consumer_Fetch_Max c) \<and>
     sint (1 * Millisecond) \<le> sint (Consumer_MaxWaitTime c) \<and>
     sint (Consumer_Retry_Backoff c) < 0 \<longrightarrow>
       Validate_err t c lg = Some (ConfigurationError ''Consumer.Retry.Backoff must be >= 0'')) \<and>
    (sint (Consumer_Retry_Backoff c) < 0 \<and> sint (Consumer_Fetch_Min c) \<le> 0 \<longrightarrow>
       Validate_err t c lg = Some (ConfigurationError ''Consumer.Fetch.Min must be > 0''))"
  using assms
  by (auto simp add: violated_defs Validate_err_def Validate_def Let_def)

theorem Consumer_check_order_witness:
  "\<not> Net_violated (NewConfig\<lparr>Consumer_Retry_Backoff := - 1, Consumer_Fetch_Min := 0\<rparr>) \<and>
   \<not> Metadata_violated (NewConfig\<lparr>Consumer_Retry_Backoff := - 1, Consumer_Fetch_Min := 0\<rparr>) \<and>
   \<not> Producer_violated (NewConfig\<lparr>Consumer_Retry_Backoff := - 1, Consumer_Fetch_Min := 0\<rparr>) \<and>
   sint (Consumer_Retry_Backoff
     (NewConfig\<lparr>Consumer_Retry_Backoff := - 1, Consumer_Fetch_Min := 0\<rparr>)) < 0 \<and>
   sint (Consumer_Fetch_Min
     (NewConfig\<lparr>Consumer_Retry_Backoff := - 1, Consumer_Fetch_Min := 0\<rparr>)) \<le> 0 \<and>
   Validate_err default_forceFlushThreshold
     (NewConfig\<lparr>Consumer_Retry_Backoff := - 1, Consumer_Fetch_Min := 0\<rparr>) []
     = Some (ConfigurationError ''Consumer.Fetch.Min must be > 0'') \<and>
   Validate_err default_forceFlushThreshold (NewConfig\<lparr>Consumer_Fetch_Default := 0\<rparr>) []
     = Some (ConfigurationError ''Consumer.Fetch.Default must be > 0'') \<and>
   Validate_err default_forceFlushThreshold (NewConfig\<lparr>Consumer_Fetch_Max := - 1\<rparr>) []
     = Some (ConfigurationError ''Consumer.Fetch.Max must be >= 0'') \<and>
   Validate_err default_forceFlushThreshold (NewConfig\<lparr>Consumer_MaxWaitTime := 999999\<rparr>) []
     = Some (ConfigurationError ''Consumer.MaxWaitTime must be > 1ms'') \<and>
   Validate_err default_forceFlushThreshold (NewConfig\<lparr>Consumer_Retry_Backoff := - 1\<rparr>) []
     = Some (ConfigurationError ''Consumer.Retry.Backoff must be >= 0'')"
proof -
  have ok: "\<not> Net_violated (NewConfig\<lparr>Consumer_Retry_Backoff := b, Consumer_Fetch_Min := m,
      Consumer_Fetch_Default := d, Consumer_Fetch_Max := x, Consumer_MaxWaitTime := w\<rparr>)"
    "\<not> Metadata_violated (NewConfig\<lparr>Consumer_Retry_Backoff := b, Consumer_Fetch_Min := m,
      Consumer_Fetch_Default := d, Consumer_Fetch_Max := x, Consumer_MaxWaitTime := w\<rparr>)"
    "\<not> Producer_violated (NewConfig\<lparr>Consumer_Retry_Backoff := b, Consumer_Fetch_Min := m,
      Consumer_Fetch_Default := d, Consumer_Fetch_Max := x, Consumer_MaxWaitTime := w\<rparr>)"
    for b m d x w
    by (simp_all add: violated_defs NewConfig_defs)
  show ?thesis
    using
      Consumer_check_order [OF ok [where b="- 1" and m="0" and d="32768" and x="0" and w="250 * Millisecond"],
        of default_forceFlushThreshold "[]"]
      Consumer_check_order [OF ok [where b="2 * Second" and m="1" and d="0" and x="0" and w="250 * Millisecond"],
        of default_forceFlushThreshold "[]"]
      Consumer_check_order [OF ok [where b="2 * Second" and m="1" and d="32768" and x="- 1" and w="250 * Millisecond"],
        of default_forceFlushThreshold "[]"]
      Consumer_check_order [OF ok [where b="2 * Second" and m="1" and d="32768" and x="0" and w="999999"],
        of default_forceFlushThreshold "[]"]
      Consumer_check_order [OF ok [where b="- 1" and m="1" and d="32768" and x="0" and w="250 * Millisecond"],
        of default_forceFlushThreshold "[]"]
    by (simp add: violated_defs NewConfig_defs)
qed

subsection \<open>Single checks of the Producer switch\<close>

lemma Validate_err_cross_field_only:
  "Validate_err t c lg =
     Some (ConfigurationError
       ''Producer.Flush.MaxMessages must be >= Producer.Flush.Messages when set'') \<Longrightarrow>
   \<not> Net_violated c \<and> \<not> Metadata_violated c \<and> \<not> Producer_head_violated c \<and>
   0 < sint (Producer_Flush_MaxMessages c) \<and>
   sint (Producer_Flush_MaxMessages c) < sint (Producer_Flush_Messages c)"
  unfolding violated_defs
  by (simp add: Validate_err_def Validate_def Let_def split: if_split_asm)

text \<open>
  C6. The cross-field rule of the Producer switch: once the Net and Metadata checks
  and the Producer cases before it pass, \<open>Validate\<close> returns the cross-field error
  exactly when \<open>Flush.MaxMessages\<close> is nonzero (positive, the negative values being
  caught just before) and below \<open>Flush.Messages\<close>. The rule stands after the other
  \<open>Producer.Flush\<close> checks: whenever its error is returned, none of them failed. On
  any valid Config, setting \<open>Flush.MaxMessages = 5\<close> and \<open>Flush.Messages = 10\<close> fails
  with this rule, while 10 with 10 and 0 with 10 pass.
\<close>

theorem Flush_MaxMessages_cross_field:
  "(\<not> Net_violated c \<and> \<not> Metadata_violated c \<and> \<not> Producer_head_violated c \<longrightarrow>
      (Validate_err t c lg =
         Some (ConfigurationError
           ''Producer.Flush.MaxMessages must be >= Producer.Flush.Messages when set'')
       \<longleftrightarrow> 0 < sint (Producer_Flush_MaxMessages c) \<and>
           sint (Producer_Flush_MaxMessages c) < sint (Producer_Flush_Messages c))) \<and>
   (Validate_err t c lg =
      Some (ConfigurationError
        ''Producer.Flush.MaxMessages must be >= Producer.Flush.Messages when set'') \<longrightarrow>
      \<not> Producer_head_violated c) \<and>
   (Validate_err t c lg = None \<longrightarrow>
      Validate_err t (c\<lparr>Producer_Flush_MaxMessages := 5, Producer_Flush_Messages := 10\<rparr>) lg =
        Some (ConfigurationError
          ''Producer.Flush.MaxMessages must be >= Producer.Flush.Messages when set'') \<and>
      Validate_err t (c\<lparr>Producer_Flush_MaxMessages := 10, Producer_Flush_Messages := 10\<rparr>) lg =
        None \<and>
      Validate_err t (c\<lparr>Producer_Flush_MaxMessages := 0, Producer_Flush_Messages := 10\<rparr>) lg =
        None)"
proof (intro conjI impI)
  assume "\<not> Net_violated c \<and> \<not> Metadata_violated c \<and> \<not> Producer_head_violated c"
  then show "Validate_err t c lg =
         Some (ConfigurationError
           ''Producer.Flush.MaxMessages must be >= Producer.Flush.Messages when set'')
       \<longleftrightarrow> 0 < sint (Producer_Flush_MaxMessages c) \<and>
           sint (Producer_Flush_MaxMessages c) < sint (Producer_Flush_Messages c)"
    by (simp add: violated_defs Validate_err_def Validate_def Let_def)
next
  assume "Validate_err t c lg =
      Some (ConfigurationError
        ''Producer.Flush.MaxMessages must be >= Producer.Flush.Messages when set'')"
  from Validate_err_cross_field_only [OF this] show "\<not> Producer_head_violated c" by simp
next
  assume "Validate_err t c lg = None"
  then have ok: "\<not> fatal_violated c" by (simp add: Validate_err_None_iff)
  then show "Validate_err t (c\<lparr>Producer_Flush_MaxMessages := 5, Producer_Flush_Messages := 10\<rparr>) lg =
        Some (ConfigurationError
          ''Producer.Flush.MaxMessages must be >= Producer.Flush.Messages when set'')"
    by (simp add: fatal_violated_def violated_defs Validate_err_def Validate_def Let_def)
  have "\<not> fatal_violated (c\<lparr>Producer_Flush_MaxMessages := 10, Producer_Flush_Messages := 10\<rparr>)"
    using ok by (simp add: fatal_violated_def violated_defs)
  then show "Validate_err t (c\<lparr>Producer_Flush_MaxMessages := 10, Producer_Flush_Messages := 10\<rparr>) lg =
        None"
    by (rule no_violation_None)
  have "\<not> fatal_violated (c\<lparr>Producer_Flush_MaxMessages := 0, Producer_Flush_Messages := 10\<rparr>)"
    using ok by (simp add: fatal_violated_def violated_defs)
  then show "Validate_err t (c\<lparr>Producer_Flush_MaxMessages := 0, Producer_Flush_Messages := 10\<rparr>) lg =
        None"
    by (rule no_violation_None)
qed

theorem Flush_MaxMessages_cross_field_witness:
  "\<not> Net_violated NewConfig \<and> \<not> Metadata_violated NewConfig \<and>
   \<not> Producer_head_violated NewConfig \<and>
   Validate_err default_forceFlushThreshold NewConfig [] = None \<and>
   Validate_err default_forceFlushThreshold
     (NewConfig\<lparr>Producer_Flush_MaxMessages := 5, Producer_Flush_Messages := 10\<rparr>) [] =
     Some (ConfigurationError
       ''Producer.Flush.MaxMessages must be >= Producer.Flush.Messages when set'') \<and>
   Validate_err default_forceFlushThreshold
     (NewConfig\<lparr>Producer_Flush_MaxMessages := 10, Producer_Flush_Messages := 10\<rparr>) [] = None \<and>
   Validate_err default_forceFlushThreshold
     (NewConfig\<lparr>Producer_Flush_MaxMessages := 0, Producer_Flush_Messages := 10\<rparr>) [] = None \<and>
   \<not> Producer_head_violated
     (NewConfig\<lparr>Producer_Flush_MaxMessages := 5, Producer_Flush_Messages := 10\<rparr>)"
proof -
  have ok: "Validate_err default_forceFlushThreshold NewConfig [] = None"
    by (rule no_violation_None) (simp add: fatal_violated_def violated_defs NewConfig_defs)
  have head: "\<not> Net_violated NewConfig \<and> \<not> Metadata_violated NewConfig \<and>
      \<not> Producer_head_violated NewConfig"
    by (simp add: violated_defs NewConfig_defs)
  show ?thesis
    using ok head
      Flush_MaxMessages_cross_field [of NewConfig default_forceFlushThreshold "[]"]
      Flush_MaxMessages_cross_field
        [of "NewConfig\<lparr>Producer_Flush_MaxMessages := 5, Producer_Flush_Messages := 10\<rparr>"
          default_forceFlushThreshold "[]"]
    by simp
qed

lemma Validate_err_RequiredAcks_only:
  "Validate_err t c lg = Some (ConfigurationError ''Producer.RequiredAcks must be >= -1'') \<Longrightarrow>
   \<not> Net_violated c \<and> \<not> Metadata_violated c \<and> 0 < sint (Producer_MaxMessageBytes c) \<and>
   sint (Producer_RequiredAcks c) < - 1"
  unfolding violated_defs
  by (simp add: Validate_err_def Validate_def Let_def split: if_split_asm)

lemma advice_RequiredAcks_logged:
  "1 < sint (Producer_RequiredAcks c) \<Longrightarrow> advice_RequiredAcks \<in> set (Validate_log t c lg)"
  by (simp add: Validate_log_eq advisories_def)

lemma advice_RequiredAcks_not_logged:
  "\<not> 1 < sint (Producer_RequiredAcks c) \<Longrightarrow> advice_RequiredAcks \<notin> set (advisories t c)"
  by (simp add: advisories_def advice_defs)

text \<open>
  C7. Once the checks before it pass, \<open>Validate\<close> returns the \<open>Producer.RequiredAcks\<close>
  error exactly when \<open>RequiredAcks\<close> is below -1, and it never returns that error
  otherwise. On any valid Config, \<open>RequiredAcks = -2\<close> fails with this error, every
  value from -1 upwards passes, and every value above 1 passes and writes the
  deprecation line to the logger.
\<close>

theorem RequiredAcks_fatal_below_minus_one:
  "(\<not> Net_violated c \<and> \<not> Metadata_violated c \<and> 0 < sint (Producer_MaxMessageBytes c) \<longrightarrow>
      (Validate_err t c lg = Some (ConfigurationError ''Producer.RequiredAcks must be >= -1'')
       \<longleftrightarrow> sint (Producer_RequiredAcks c) < - 1)) \<and>
   (Validate_err t c lg = Some (ConfigurationError ''Producer.RequiredAcks must be >= -1'') \<longrightarrow>
      sint (Producer_RequiredAcks c) < - 1) \<and>
   (Validate_err t c lg = None \<longrightarrow>
      Validate_err t (c\<lparr>Producer_RequiredAcks := - 2\<rparr>) lg =
        Some (ConfigurationError ''Producer.RequiredAcks must be >= -1'') \<and>
      (\<forall>r. 1 < sint r \<longrightarrow>
         Validate_err t (c\<lparr>Producer_RequiredAcks := r\<rparr>) lg = None \<and>
         advice_RequiredAcks \<in> set (Validate_log t (c\<lparr>Producer_RequiredAcks := r\<rparr>) lg)) \<and>
      (\<forall>r. - 1 \<le> sint r \<longrightarrow> Validate_err t (c\<lparr>Producer_RequiredAcks := r\<rparr>) lg = None))"
proof (intro conjI impI allI)
  assume "\<not> Net_violated c \<and> \<not> Metadata_violated c \<and> 0 < sint (Producer_MaxMessageBytes c)"
  then show "Validate_err t c lg = Some (ConfigurationError ''Producer.RequiredAcks must be >= -1'')
       \<longleftrightarrow> sint (Producer_RequiredAcks c) < - 1"
    by (simp add: violated_defs Validate_err_def Validate_def Let_def)
next
  assume "Validate_err t c lg = Some (ConfigurationError ''Producer.RequiredAcks must be >= -1'')"
  from Validate_err_RequiredAcks_only [OF this]
  show "sint (Producer_RequiredAcks c) < - 1" by simp
next
  assume "Validate_err t c lg = None"
  then have ok: "\<not> fatal_violated c" by (simp add: Validate_err_None_iff)
  then show "Validate_err t (c\<lparr>Producer_RequiredAcks := - 2\<rparr>) lg =
        Some (ConfigurationError ''Producer.RequiredAcks must be >= -1'')"
    by (simp add: fatal_violated_def violated_defs Validate_err_def Validate_def Let_def)
  have keep: "\<not> fatal_violated (c\<lparr>Producer_RequiredAcks := r\<rparr>)" if "- 1 \<le> sint r" for r
    using ok that by (simp add: fatal_violated_def violated_defs)
  { fix r :: RequiredAcks
    assume r: "1 < sint r"
    then have "- 1 \<le> sint r" by simp
    from keep [OF this] show "Validate_err t (c\<lparr>Producer_RequiredAcks := r\<rparr>) lg = None"
      by (rule no_violation_None)
    from r show "advice_RequiredAcks \<in> set (Validate_log t (c\<lparr>Producer_RequiredAcks := r\<rparr>) lg)"
      by (simp add: advice_RequiredAcks_logged)
  }
  { fix r :: RequiredAcks
    assume "- 1 \<le> sint r"
    from keep [OF this] show "Validate_err t (c\<lparr>Producer_RequiredAcks := r\<rparr>) lg = None"
      by (rule no_violation_None)
  }
qed

theorem RequiredAcks_fatal_below_minus_one_witness:
  "\<not> Net_violated NewConfig \<and> \<not> Metadata_violated NewConfig \<and>
   0 < sint (Producer_MaxMessageBytes NewConfig) \<and>
   Validate_err default_forceFlushThreshold NewConfig [] = None \<and>
   Validate_err default_forceFlushThreshold (NewConfig\<lparr>Producer_RequiredAcks := - 2\<rparr>) [] =
     Some (ConfigurationError ''Producer.RequiredAcks must be >= -1'') \<and>
   sint (Producer_RequiredAcks (NewConfig\<lparr>Producer_RequiredAcks := - 2\<rparr>)) < - 1 \<and>
   1 < sint (2 :: RequiredAcks) \<and>
   Validate_err default_forceFlushThreshold (NewConfig\<lparr>Producer_RequiredAcks := 2\<rparr>) [] = None \<and>
   Validate_log default_forceFlushThreshold (NewConfig\<lparr>Producer_RequiredAcks := 2\<rparr>) [] =
     [advice_RequiredAcks]"
proof -
  have ok: "Validate_err default_forceFlushThreshold NewConfig [] = None"
    by (rule no_violation_None) (simp add: fatal_violated_def violated_defs NewConfig_defs)
  have head: "\<not> Net_violated NewConfig \<and> \<not> Metadata_violated NewConfig \<and>
      0 < sint (Producer_MaxMessageBytes NewConfig)"
    by (simp add: violated_defs NewConfig_defs)
  have lg: "Validate_log default_forceFlushThreshold (NewConfig\<lparr>Producer_RequiredAcks := 2\<rparr>) [] =
     [advice_RequiredAcks]"
    by (simp add: Validate_log_eq advisories_def NewConfig_defs default_forceFlushThreshold_def
        signed_modulo_int_def)
  show ?thesis
    using ok head lg
      RequiredAcks_fatal_below_minus_one [of NewConfig default_forceFlushThreshold "[]"]
      RequiredAcks_fatal_below_minus_one
        [of "NewConfig\<lparr>Producer_RequiredAcks := - 2\<rparr>" default_forceFlushThreshold "[]"]
    by simp
qed

subsection \<open>Advisories and the outcome\<close>

text \<open>
  C8. Whether \<open>Validate\<close> succeeds is decided by the fatal checks alone: it returns no
  error exactly when no fatal case holds, and the error is the same for every
  threshold and every state of the logger, the only things besides the Config that
  the advisory conditions read. The advisories go to the logger only: a Config that
  passes every fatal check and meets all seven advisory conditions is accepted, with
  the seven lines appended to the logger in the order of the source.
\<close>

theorem advisories_do_not_decide:
  "(Validate_err t c lg = None \<longleftrightarrow> \<not> fatal_violated c) \<and>
   Validate_err t c lg = Validate_err t' c lg' \<and>
   (\<not> fatal_violated c \<and> all_advisories_hold t c \<longrightarrow>
      Validate t c lg =
        (c, lg @ [advice_RequiredAcks, advice_MaxMessageBytes, advice_Flush_Bytes, advice_Timeout,
                  advice_MaxWaitTime_low, advice_MaxWaitTime_precision, advice_ClientID], None))"
proof (intro conjI impI)
  show "Validate_err t c lg = None \<longleftrightarrow> \<not> fatal_violated c"
    by (rule Validate_err_None_iff)
  show "Validate_err t c lg = Validate_err t' c lg'"
    by (rule Validate_err_indep)
  assume a: "\<not> fatal_violated c \<and> all_advisories_hold t c"
  then have e: "Validate_err t c lg = None"
    by (simp add: no_violation_None)
  from a have l: "Validate_log t c lg =
      lg @ [advice_RequiredAcks, advice_MaxMessageBytes, advice_Flush_Bytes, advice_Timeout,
            advice_MaxWaitTime_low, advice_MaxWaitTime_precision, advice_ClientID]"
    by (simp add: Validate_log_eq advisories_def all_advisories_hold_def)
  have "Validate t c lg = (Validate_cfg t c lg, Validate_log t c lg, Validate_err t c lg)"
    by (simp add: Validate_cfg_def Validate_log_def Validate_err_def)
  with e l show "Validate t c lg =
        (c, lg @ [advice_RequiredAcks, advice_MaxMessageBytes, advice_Flush_Bytes, advice_Timeout,
                  advice_MaxWaitTime_low, advice_MaxWaitTime_precision, advice_ClientID], None)"
    by (simp add: Validate_cfg_eq)
qed

theorem advisories_do_not_decide_witness:
  "\<not> fatal_violated Config_advised \<and>
   all_advisories_hold default_forceFlushThreshold Config_advised \<and>
   Validate default_forceFlushThreshold Config_advised [] =
     (Config_advised,
      [advice_RequiredAcks, advice_MaxMessageBytes, advice_Flush_Bytes, advice_Timeout,
       advice_MaxWaitTime_low, advice_MaxWaitTime_precision, advice_ClientID], None)"
proof -
  have f: "\<not> fatal_violated Config_advised"
    by (simp add: fatal_violated_def violated_defs Config_advised_def NewConfig_defs
        default_forceFlushThreshold_def)
  have a: "all_advisories_hold default_forceFlushThreshold Config_advised"
    by (simp add: all_advisories_hold_def Config_advised_def NewConfig_defs
        default_forceFlushThreshold_def signed_modulo_int_def)
  show ?thesis
    using f a advisories_do_not_decide [of default_forceFlushThreshold Config_advised "[]"]
    by simp
qed

text \<open>
  C9. \<open>Validate\<close> leaves the Config as it found it, and a second call, on the Config
  and the logger the first call left behind (and under any threshold), returns the
  same result as the first: no error both times, or the same error both times. The
  second call writes the same advisory lines again.
\<close>

theorem Validate_read_only:
  "Validate_cfg t c lg = c \<and>
   Validate_err t' (Validate_cfg t c lg) (Validate_log t c lg) = Validate_err t c lg \<and>
   Validate_cfg t' (Validate_cfg t c lg) (Validate_log t c lg) = c \<and>
   Validate_log t (Validate_cfg t c lg) (Validate_log t c lg) =
     Validate_log t c lg @ advisories t c"
  by (simp add: Validate_cfg_eq Validate_log_eq Validate_err_indep [of t' c _ t lg])

text \<open>
  C10. Two Configs that differ only in \<open>Producer.Compression\<close>,
  \<open>Producer.Return.Successes\<close>, \<open>Producer.Return.Errors\<close>, \<open>Consumer.Return.Errors\<close>
  and \<open>ClientID\<close> get the same result from \<open>Validate\<close>, success or the same error,
  whatever the threshold and the logger.
\<close>

theorem Validate_err_ignores_unchecked_fields:
  "Validate_err t
     (c\<lparr>Producer_Compression := k, Producer_Return_Successes := s, Producer_Return_Errors := e,
        Consumer_Return_Errors := e', ClientID := i\<rparr>) lg
   = Validate_err t' c lg'"
  by (simp add: Validate_err_def Validate_def Let_def)

subsection \<open>The floor of Consumer.MaxWaitTime\<close>

text \<open>
  C3. The message of the check says \<open>Consumer.MaxWaitTime must be > 1ms\<close>, but its
  guard is \<open>MaxWaitTime < 1ms\<close>: a wait of exactly one millisecond is not strictly
  greater than 1ms, and \<open>Validate\<close> accepts the default Config with that value, for
  every threshold and logger.
\<close>

theorem MaxWaitTime_1ms_accepted:
  "sint (Consumer_MaxWaitTime (NewConfig\<lparr>Consumer_MaxWaitTime := 1 * Millisecond\<rparr>)) = 1000000 \<and>
   Validate_err t (NewConfig\<lparr>Consumer_MaxWaitTime := 1 * Millisecond\<rparr>) lg = None"
  by (simp add: Validate_err_def Validate_def Let_def NewConfig_defs)

text \<open>
  What the check does enforce: below one millisecond the Config is never valid, and
  the error names \<open>Consumer.MaxWaitTime\<close> once the checks before it pass; 50ms is
  accepted on the default Config, with the advisory line that every wait below 100ms
  gets.
\<close>

lemma MaxWaitTime_below_1ms_fatal:
  "\<not> Net_violated c \<Longrightarrow> \<not> Metadata_violated c \<Longrightarrow> \<not> Producer_violated c \<Longrightarrow>
   0 < sint (Consumer_Fetch_Min c) \<Longrightarrow> 0 < sint (Consumer_Fetch_Default c) \<Longrightarrow>
   0 \<le> sint (Consumer_Fetch_Max c) \<Longrightarrow>
   (Validate_err t c lg = Some (ConfigurationError ''Consumer.MaxWaitTime must be > 1ms'')
    \<longleftrightarrow> sint (Consumer_MaxWaitTime c) < 1000000)"
  by (auto simp add: violated_defs Validate_err_def Validate_def Let_def Millisecond_def)

lemma MaxWaitTime_below_1ms_never_valid:
  "sint (Consumer_MaxWaitTime c) < 1000000 \<Longrightarrow> Validate_err t c lg \<noteq> None"
  by (simp add: Validate_err_None_iff fatal_violated_def Consumer_violated_def Millisecond_def)

lemma MaxWaitTime_50ms_advised:
  "Validate_err t (NewConfig\<lparr>Consumer_MaxWaitTime := 50 * Millisecond\<rparr>) lg = None \<and>
   advice_MaxWaitTime_low \<in> set (Validate_log t (NewConfig\<lparr>Consumer_MaxWaitTime := 50 * Millisecond\<rparr>) lg)"
  by (simp add: Validate_log_eq advisories_def Validate_err_def Validate_def Let_def NewConfig_defs)

lemma advice_MaxWaitTime_low_iff:
  "advice_MaxWaitTime_low \<in> set (advisories t c) \<longleftrightarrow> sint (Consumer_MaxWaitTime c) < 100000000"
  by (simp add: advisories_def advice_defs Millisecond_def)

subsection \<open>The default ClientID\<close>

text \<open>
  C4. The struct documents "sarama" as the default of \<open>ClientID\<close>, but \<open>NewConfig\<close>
  never assigns the field: the Config it returns has the empty \<open>ClientID\<close>, and
  \<open>Validate\<close>, which compares the field with "sarama", writes no default-ClientID
  line for it.
\<close>

theorem ClientID_unset_no_advisory:
  "ClientID NewConfig = [] \<and>
   advice_ClientID \<notin> set (advisories t NewConfig) \<and>
   count_list (Validate_log t NewConfig []) advice_ClientID = 0"
  by (simp add: Validate_log_eq advisories_def advice_defs NewConfig_defs)

text \<open>
  With \<open>ClientID\<close> set to "sarama" the line is written exactly once per call, and no
  error of \<open>Validate\<close> is about \<open>ClientID\<close>: every error is one of the messages of the
  five switches.
\<close>

lemma advice_ClientID_count:
  "count_list (advisories t c) advice_ClientID = (if ClientID c = ''sarama'' then 1 else 0)"
  by (simp add: advisories_def advice_defs)

lemma Validate_err_never_names_ClientID:
  "Validate_err t c lg \<in>
     insert None (Some ` set (Net_errors @ Metadata_errors @ Producer_errors @ Consumer_errors @
       Misc_errors))"
proof (cases "fatal_violated c")
  case False
  then show ?thesis by (simp add: no_violation_None)
next
  case True
  then consider "Net_violated c"
    | "\<not> Net_violated c" "Metadata_violated c"
    | "\<not> Net_violated c" "\<not> Metadata_violated c" "Producer_violated c"
    | "\<not> Net_violated c" "\<not> Metadata_violated c" "\<not> Producer_violated c"
      "Consumer_violated c"
    | "\<not> Net_violated c" "\<not> Metadata_violated c" "\<not> Producer_violated c"
      "\<not> Consumer_violated c" "Misc_violated c"
    unfolding fatal_violated_def by blast
  then show ?thesis
  proof cases
    case 1 from Net_first [OF this, of t lg] show ?thesis by auto
  next
    case 2 from Metadata_second [OF this, of t lg] show ?thesis by auto
  next
    case 3 from Producer_third [OF this, of t lg] show ?thesis by auto
  next
    case 4 from Consumer_fourth [OF this, of t lg] show ?thesis by auto
  next
    case 5 from Misc_fifth [OF this, of t lg] show ?thesis by auto
  qed
qed

end
